theory Spec2Isabelle
  imports Complex_Main "HOL-Library.Sublist"
begin

section \<open>Python values\<close>

text \<open>
  Numbers of the scoring code (Python ints and floats) are exact rationals here: the
  arithmetic of the source is written out as it stands, without binary rounding error.
  A dict that the code iterates over is an association list in insertion order; a dict
  that is only looked up is a map.
\<close>

datatype py_error = ValueError | KeyError | OverflowError

definition dict_get :: "(string \<times> 'a) list \<Rightarrow> string \<Rightarrow> 'a \<Rightarrow> 'a" where
  "dict_get d k dflt = (case map_of d k of None \<Rightarrow> dflt | Some v \<Rightarrow> v)"

definition map_get :: "(string \<rightharpoonup> 'a) \<Rightarrow> string \<Rightarrow> 'a \<Rightarrow> 'a" where
  "map_get d k dflt = (case d k of None \<Rightarrow> dflt | Some v \<Rightarrow> v)"

text \<open>\<open>round(x, ndigits)\<close>: to the nearest multiple of \<open>10^-ndigits\<close>, a tie to the even one.\<close>

definition round_half_even :: "rat \<Rightarrow> int" where
  "round_half_even x =
     (let f = \<lfloor>x\<rfloor>; d = x - of_int f
      in if d < 1 / 2 then f else if 1 / 2 < d then f + 1
         else if even f then f else f + 1)"

definition py_round :: "rat \<Rightarrow> nat \<Rightarrow> rat" where
  "py_round x ndigits = of_int (round_half_even (x * 10 ^ ndigits)) / 10 ^ ndigits"

text \<open>The slice \<open>xs[:n]\<close>; a negative \<open>n\<close> counts from the end.\<close>

definition py_slice_to :: "int \<Rightarrow> 'a list \<Rightarrow> 'a list" where
  "py_slice_to n xs =
     (if 0 \<le> n then take (nat n) xs else take (length xs - nat (- n)) xs)"

text \<open>\<open>list.sort(key=f, reverse=True)\<close>: descending and stable, elements with equal keys
  keep their order.\<close>

definition sort_reverse :: "('a \<Rightarrow> rat) \<Rightarrow> 'a list \<Rightarrow> 'a list" where
  "sort_reverse f xs = sort_key (\<lambda>x. - f x) xs"

section \<open>execution/score\_and\_rank.py\<close>

type_synonym sub_record = "string \<rightharpoonup> rat"
type_synonym area_data = "string \<rightharpoonup> sub_record"
type_synonym weights = "(string \<times> rat) list"

record user_preferences =
  budget_max :: "rat option"
  max_commute_minutes :: "rat option"
  min_safety_score :: "rat option"
  min_school_rating :: "rat option"
  importance_weights :: "weights option"

definition PERSONA_WEIGHTS :: "string \<rightharpoonup> weights" where
  "PERSONA_WEIGHTS = map_of
     [(''student'',
         [(''affordability'', 35), (''commute'', 25), (''safety'', 15),
          (''amenities'', 20), (''investment_quality'', 5)]),
      (''parent'',
         [(''affordability'', 20), (''schools'', 30), (''safety'', 25),
          (''commute'', 15), (''amenities'', 10)]),
      (''developer'',
         [(''investment_quality'', 40), (''demand_index'', 25), (''risk_score'', 20),
          (''infrastructure'', 15)])]"

text \<open>The loop of \<open>calculate_adjusted_weights\<close> that fills \<open>adjusted\<close>, before normalisation.\<close>

definition scale_by_importance :: "weights \<Rightarrow> weights \<Rightarrow> weights" where
  "scale_by_importance base_weights user_importance =
     map (\<lambda>(factor, base_weight).
            (factor, base_weight * (dict_get user_importance factor 5 / 5)))
         base_weights"

definition calculate_adjusted_weights :: "string \<Rightarrow> weights \<Rightarrow> py_error + weights" where
  "calculate_adjusted_weights persona user_importance =
     (case PERSONA_WEIGHTS persona of
        None \<Rightarrow> Inl KeyError
      | Some base_weights \<Rightarrow>
          if user_importance = [] then Inr base_weights
          else
            let adjusted = scale_by_importance base_weights user_importance;
                total = sum_list (map snd adjusted)
            in if 0 < total
               then Inr (map (\<lambda>(k, v). (k, (v / total) * 100)) adjusted)
               else Inr adjusted)"

definition calculate_factor_scores :: "area_data \<Rightarrow> string \<Rightarrow> (string \<rightharpoonup> rat)" where
  "calculate_factor_scores area persona =
     (let scores = Map.empty;
          scores = (case area ''scansan'' of
                      None \<Rightarrow> scores
                    | Some ss \<Rightarrow>
                        scores(''affordability'' \<mapsto> map_get ss ''affordability_score'' 50,
                               ''investment_quality'' \<mapsto> map_get ss ''investment_quality'' 50,
                               ''demand_index'' \<mapsto> map_get ss ''demand_index'' 50,
                               ''risk_score'' \<mapsto> map_get ss ''risk_score'' 50));
          scores = (case area ''commute'' of
                      None \<Rightarrow> scores
                    | Some c \<Rightarrow>
                        (let duration = map_get c ''duration_minutes'' 60
                         in scores(''commute'' \<mapsto>
                              max 0 (min 100 (100 - (duration / 60 * 100))))));
          scores = (case area ''crime'' of
                      None \<Rightarrow> scores
                    | Some c \<Rightarrow> scores(''safety'' \<mapsto> map_get c ''safety_score'' 50));
          scores = (case area ''schools'' of
                      None \<Rightarrow> scores
                    | Some s \<Rightarrow> scores(''schools'' \<mapsto> map_get s ''avg_primary_score'' 50));
          scores = (case area ''amenities'' of
                      None \<Rightarrow> scores
                    | Some a \<Rightarrow> scores(''amenities'' \<mapsto> map_get a ''density_score'' 50));
          scores = (case area ''infrastructure'' of
                      None \<Rightarrow> scores
                    | Some i \<Rightarrow> scores(''infrastructure'' \<mapsto> map_get i ''score'' 50))
      in scores)"

text \<open>The loop of \<open>calculate_composite_score\<close> over \<open>weights.items()\<close>, threading
  \<open>composite\<close> and \<open>contributions\<close>.\<close>

fun composite_loop ::
  "(string \<rightharpoonup> rat) \<Rightarrow> weights \<Rightarrow> rat \<times> (string \<rightharpoonup> rat) \<Rightarrow> rat \<times> (string \<rightharpoonup> rat)" where
  "composite_loop scores [] acc = acc"
| "composite_loop scores ((factor, weight) # rest) (composite, contributions) =
     (case scores factor of
        Some s \<Rightarrow>
          (let contribution = (s * weight) / 100
           in composite_loop scores rest
                (composite + contribution, contributions(factor \<mapsto> contribution)))
      | None \<Rightarrow> composite_loop scores rest (composite, contributions(factor \<mapsto> 0)))"

definition calculate_composite_score ::
  "(string \<rightharpoonup> rat) \<Rightarrow> weights \<Rightarrow> rat \<times> (string \<rightharpoonup> rat)" where
  "calculate_composite_score scores ws = composite_loop scores ws (0, Map.empty)"

text \<open>A missing \<open>avg_price\<close> or \<open>duration_minutes\<close> defaults to \<open>float('inf')\<close>, which exceeds
  every threshold.\<close>

definition exceeds_or_inf :: "rat option \<Rightarrow> rat \<Rightarrow> bool" where
  "exceeds_or_inf v bound = (case v of None \<Rightarrow> True | Some x \<Rightarrow> bound < x)"

definition passes_constraints :: "area_data \<Rightarrow> user_preferences \<Rightarrow> bool" where
  "passes_constraints area preferences =
     (if (case (budget_max preferences, area ''scansan'') of
            (Some b, Some ss) \<Rightarrow> exceeds_or_inf (ss ''avg_price'') b
          | _ \<Rightarrow> False) then False
      else if (case (max_commute_minutes preferences, area ''commute'') of
            (Some m, Some c) \<Rightarrow> exceeds_or_inf (c ''duration_minutes'') m
          | _ \<Rightarrow> False) then False
      else if (case (min_safety_score preferences, area ''crime'') of
            (Some m, Some c) \<Rightarrow> map_get c ''safety_score'' 0 < m
          | _ \<Rightarrow> False) then False
      else if (case (min_school_rating preferences, area ''schools'') of
            (Some m, Some s) \<Rightarrow> map_get s ''avg_primary_score'' 0 < m
          | _ \<Rightarrow> False) then False
      else True)"

text \<open>The reason strings, with the numbers they are formatted from.\<close>

datatype filter_reason =
  Over_budget rat rat
| Commute_too_long rat rat
| Did_not_meet_constraints

definition get_filter_reason :: "area_data \<Rightarrow> user_preferences \<Rightarrow> filter_reason" where
  "get_filter_reason area preferences =
     (case (case (budget_max preferences, area ''scansan'') of
              (Some b, Some ss) \<Rightarrow>
                (let price = map_get ss ''avg_price'' 0
                 in if b < price then Some (Over_budget price b) else None)
            | _ \<Rightarrow> None) of
        Some r \<Rightarrow> r
      | None \<Rightarrow>
          (case (case (max_commute_minutes preferences, area ''commute'') of
                   (Some m, Some c) \<Rightarrow>
                     (let duration = map_get c ''duration_minutes'' 0
                      in if m < duration then Some (Commute_too_long duration m) else None)
                 | _ \<Rightarrow> None) of
             Some r \<Rightarrow> r
           | None \<Rightarrow> Did_not_meet_constraints))"

text \<open>
  A scored candidate. The narrative fields (\<open>strengths\<close>, \<open>weaknesses\<close>, \<open>trade_offs\<close>) are
  texts computed from the factor scores; they take no part in filtering, ordering or
  ranking and are left out, as is the \<open>timestamp\<close> of the result. The \<open>rank\<close> key is
  absent until the ranking pass sets it.
\<close>

record scored_candidate =
  area_code :: string
  composite_score :: rat
  factor_scores :: "string \<rightharpoonup> rat"
  factor_contributions :: "string \<rightharpoonup> rat"
  raw_data :: area_data
  rank :: "nat option"

record filtered_area =
  filtered_code :: string
  reason :: filter_reason

record ranking_result =
  persona_of :: string
  adjusted_weights :: weights
  recommendations :: "scored_candidate list"
  filtered_out_count :: nat
  filtered_out_reasons :: "filtered_area list"

definition score_candidate :: "string \<Rightarrow> weights \<Rightarrow> string \<Rightarrow> area_data \<Rightarrow> scored_candidate" where
  "score_candidate persona ws code area =
     (let scores = calculate_factor_scores area persona;
          (composite, contributions) = calculate_composite_score scores ws
      in \<lparr> area_code = code,
           composite_score = py_round composite 1,
           factor_scores = (\<lambda>k. map_option (\<lambda>v. py_round v 0) (scores k)),
           factor_contributions = (\<lambda>k. map_option (\<lambda>v. py_round v 1) (contributions k)),
           raw_data = area,
           rank = None \<rparr>)"

text \<open>The loop over the candidates (the items of \<open>enrichment_data\<close>, in dict order),
  threading \<open>scored_candidates\<close> and \<open>filtered_out\<close>.\<close>

fun score_loop ::
  "string \<Rightarrow> user_preferences \<Rightarrow> weights \<Rightarrow> (string \<times> area_data) list \<Rightarrow>
   scored_candidate list \<times> filtered_area list \<Rightarrow> scored_candidate list \<times> filtered_area list" where
  "score_loop persona prefs ws [] acc = acc"
| "score_loop persona prefs ws ((code, area) # rest) (scored, filtered) =
     (if \<not> passes_constraints area prefs
      then score_loop persona prefs ws rest
             (scored, filtered @ [\<lparr> filtered_code = code,
                                     reason = get_filter_reason area prefs \<rparr>])
      else score_loop persona prefs ws rest
             (scored @ [score_candidate persona ws code area], filtered))"

definition assign_ranks :: "scored_candidate list \<Rightarrow> scored_candidate list" where
  "assign_ranks top_candidates =
     map (\<lambda>(i, candidate). candidate\<lparr>rank := Some (i + 1)\<rparr>) (enumerate 0 top_candidates)"

definition score_and_rank ::
  "string \<Rightarrow> user_preferences \<Rightarrow> (string \<times> area_data) list \<Rightarrow> int \<Rightarrow>
   py_error + ranking_result" where
  "score_and_rank persona prefs enrichment_data top_n =
     (if PERSONA_WEIGHTS persona = None then Inl ValueError
      else
        case calculate_adjusted_weights persona
               (case importance_weights prefs of None \<Rightarrow> [] | Some w \<Rightarrow> w) of
          Inl e \<Rightarrow> Inl e
        | Inr ws \<Rightarrow>
            (let (scored_candidates, filtered_out) =
                   score_loop persona prefs ws enrichment_data ([], []);
                 scored_candidates = sort_reverse composite_score scored_candidates;
                 top_candidates = assign_ranks (py_slice_to top_n scored_candidates)
             in Inr \<lparr> persona_of = persona,
                      adjusted_weights = ws,
                      recommendations = top_candidates,
                      filtered_out_count = length filtered_out,
                      filtered_out_reasons = take 5 filtered_out \<rparr>))"

section \<open>tools/score\_areas.py\<close>

definition PERSONA_WEIGHTS_tools :: "string \<rightharpoonup> weights" where
  "PERSONA_WEIGHTS_tools = map_of
     [(''student'',
         [(''affordability'', 35 / 100), (''commute'', 25 / 100), (''safety'', 15 / 100),
          (''amenities'', 15 / 100), (''schools'', 0), (''investment'', 10 / 100)]),
      (''parent'',
         [(''affordability'', 20 / 100), (''commute'', 15 / 100), (''safety'', 25 / 100),
          (''amenities'', 10 / 100), (''schools'', 30 / 100), (''investment'', 0)]),
      (''developer'',
         [(''affordability'', 10 / 100), (''commute'', 5 / 100), (''safety'', 10 / 100),
          (''amenities'', 15 / 100), (''schools'', 20 / 100), (''investment'', 40 / 100)])]"

text \<open>The loop over \<open>user_weights.items()\<close>: \<open>weights[factor] *= multiplier\<close> for the
  factors the persona has.\<close>

fun apply_user_weights :: "weights \<Rightarrow> weights \<Rightarrow> weights" where
  "apply_user_weights ws [] = ws"
| "apply_user_weights ws ((factor, user_weight) # rest) =
     apply_user_weights
       (if factor \<in> set (map fst ws)
        then (let multiplier = 1 / 2 + (user_weight / 10)
              in map (\<lambda>(k, v). if k = factor then (k, v * multiplier) else (k, v)) ws)
        else ws)
       rest"

text \<open>\<open>sum(factor_scores[factor] * weight for factor, weight in weights.items())\<close>.\<close>

fun weighted_sum :: "(string \<times> rat) list \<Rightarrow> weights \<Rightarrow> rat \<Rightarrow> py_error + rat" where
  "weighted_sum fs [] acc = Inr acc"
| "weighted_sum fs ((factor, weight) # rest) acc =
     (case map_of fs factor of
        None \<Rightarrow> Inl KeyError
      | Some s \<Rightarrow> weighted_sum fs rest (acc + s * weight))"

text \<open>The result of the tool's scorer, without its explanation fields
  (\<open>contributions\<close>, \<open>strengths\<close>, \<open>weaknesses\<close>).\<close>

record score_data =
  sd_composite_score :: rat
  sd_factor_scores :: "(string \<times> rat) list"
  sd_weights_applied :: weights

text \<open>
  The first part of the tool's \<open>calculate_composite_score\<close>: the weights of the persona,
  \<open>PERSONA_WEIGHTS.get(persona, PERSONA_WEIGHTS["student"])\<close> (the default is the student
  entry of the table, written out), adjusted by a non-empty \<open>user_weights\<close> and
  renormalised to sum to 1 when their total is positive.
\<close>

definition resolve_weights_tools :: "string \<Rightarrow> weights option \<Rightarrow> weights" where
  "resolve_weights_tools persona user_weights =
     (let ws = (case PERSONA_WEIGHTS_tools persona of
                  Some w \<Rightarrow> w
                | None \<Rightarrow> [(''affordability'', 35 / 100), (''commute'', 25 / 100),
                           (''safety'', 15 / 100), (''amenities'', 15 / 100),
                           (''schools'', 0), (''investment'', 10 / 100)])
      in case user_weights of
           None \<Rightarrow> ws
         | Some uw \<Rightarrow>
             if uw = [] then ws
             else
               let ws = apply_user_weights ws uw;
                   total = sum_list (map snd ws)
               in if 0 < total then map (\<lambda>(k, v). (k, v / total)) ws else ws)"

definition calculate_composite_score_tools ::
  "area_data \<Rightarrow> string \<Rightarrow> weights option \<Rightarrow> py_error + score_data" where
  "calculate_composite_score_tools enrichment persona user_weights =
     (let ws = resolve_weights_tools persona user_weights;
          scansan = map_get enrichment ''scansan'' Map.empty;
          commute = map_get enrichment ''commute'' Map.empty;
          crime = map_get enrichment ''crime'' Map.empty;
          schools = map_get enrichment ''schools'' Map.empty;
          amenities = map_get enrichment ''amenities'' Map.empty;
          fs = [(''affordability'', map_get scansan ''affordability_score'' 50),
                (''commute'', 100 - min 100 (map_get commute ''duration_minutes'' 30 / 60 * 100)),
                (''safety'', map_get crime ''safety_score'' 50),
                (''amenities'', map_get amenities ''density_score'' 50),
                (''schools'', map_get schools ''avg_quality_score'' 50),
                (''investment'', map_get scansan ''investment_quality'' 50)]
      in case weighted_sum fs ws 0 of
           Inl e \<Rightarrow> Inl e
         | Inr composite \<Rightarrow>
             Inr \<lparr> sd_composite_score = py_round composite 1,
                   sd_factor_scores = fs,
                   sd_weights_applied = ws \<rparr>)"

text \<open>An element of \<open>enriched_areas\<close>: the \<open>area_code\<close> entry (if any) and the sub-records.\<close>

record enriched_area =
  ea_area_code :: "string option"
  ea_sub_records :: area_data

text \<open>A recommendation of \<open>rank_areas\<close>, without its display fields (\<open>area_name\<close>,
  \<open>strengths\<close>, \<open>weaknesses\<close>, \<open>explanation\<close>); \<open>rank\<close> is 0 until the ranks are
  assigned.\<close>

record recommendation =
  rec_area_code :: "string option"
  rec_rank :: nat
  rec_composite_score :: rat
  rec_factor_breakdown :: "(string \<times> rat) list"
  rec_enrichment_data :: enriched_area

fun build_recommendations ::
  "string \<Rightarrow> weights option \<Rightarrow> enriched_area list \<Rightarrow> recommendation list \<Rightarrow>
   py_error + recommendation list" where
  "build_recommendations persona user_weights [] recs = Inr recs"
| "build_recommendations persona user_weights (area # rest) recs =
     (case calculate_composite_score_tools (ea_sub_records area) persona user_weights of
        Inl e \<Rightarrow> Inl e
      | Inr sd \<Rightarrow>
          build_recommendations persona user_weights rest
            (recs @ [\<lparr> rec_area_code = ea_area_code area,
                        rec_rank = 0,
                        rec_composite_score = sd_composite_score sd,
                        rec_factor_breakdown = sd_factor_scores sd,
                        rec_enrichment_data = area \<rparr>]))"

definition rank_areas ::
  "enriched_area list \<Rightarrow> string \<Rightarrow> weights option \<Rightarrow> int \<Rightarrow> py_error + recommendation list" where
  "rank_areas enriched_areas persona user_weights limit =
     (case build_recommendations persona user_weights enriched_areas [] of
        Inl e \<Rightarrow> Inl e
      | Inr recs \<Rightarrow>
          Inr (map (\<lambda>(i, r). r\<lparr>rec_rank := i\<rparr>)
                 (enumerate 1 (py_slice_to limit (sort_reverse rec_composite_score recs)))))"

section \<open>tools/cache\_manager.py\<close>

text \<open>
  The cache directory is a map from file paths to files. A file either cannot be read as
  JSON or holds the object that \<open>write_cache\<close> dumps; the payload is kept as it is
  (serialisation is not modelled). Times are microseconds, the resolution of
  \<open>datetime.now()\<close>; \<open>cache_timestamp\<close> is \<open>None\<close> for a missing or empty
  \<open>_cache_timestamp\<close>.
\<close>

record 'p cache_data =
  cache_timestamp :: "int option"
  cache_type_of :: string
  cache_key_of :: string
  data_of :: "'p option"

datatype 'p cache_file = Unreadable | Contents "'p cache_data"

type_synonym 'p cache_dir = "string \<rightharpoonup> 'p cache_file"

text \<open>A validity in hours; \<open>Never\<close> is \<open>float('inf')\<close>.\<close>

datatype validity = Hours int | Never

definition CACHE_VALIDITY :: "string \<rightharpoonup> validity" where
  "CACHE_VALIDITY = map_of
     [(''scansan_property'', Hours 24),
      (''scansan_trends'', Hours 168),
      (''tfl_commute'', Hours 168),
      (''crime'', Hours 720),
      (''schools'', Hours 2160),
      (''amenities'', Hours 720),
      (''video_url'', Never)]"

definition replace_char :: "char \<Rightarrow> char \<Rightarrow> string \<Rightarrow> string" where
  "replace_char a b s = map (\<lambda>c. if c = a then b else c) s"

definition get_cache_path :: "string \<Rightarrow> string \<Rightarrow> string" where
  "get_cache_path cache_type key =
     (let safe_key = replace_char CHR '' '' CHR ''_''
                       (replace_char (CHR 0x5C) CHR ''_''
                          (replace_char CHR ''/'' CHR ''_'' key))
      in ''.tmp/'' @ cache_type @ ''_'' @ safe_key @ ''.json'')"

text \<open>\<open>timedelta(hours=h)\<close> in microseconds. It raises \<open>OverflowError\<close> for an infinite
  argument and for more than 999999999 days.\<close>

definition timedelta_hours :: "validity \<Rightarrow> py_error + int" where
  "timedelta_hours v =
     (case v of
        Never \<Rightarrow> Inl OverflowError
      | Hours h \<Rightarrow>
          if - 999999999 \<le> h div 24 \<and> h div 24 \<le> 999999999
          then Inr (h * 3600000000)
          else Inl OverflowError)"

text \<open>The step "determine max age" of \<open>read_cache\<close>.\<close>

definition determine_max_age :: "string \<Rightarrow> int option \<Rightarrow> validity" where
  "determine_max_age cache_type max_age_hours =
     (case max_age_hours of
        None \<Rightarrow> map_get CACHE_VALIDITY cache_type (Hours 24)
      | Some h \<Rightarrow> Hours h)"

text \<open>\<open>read_cache\<close> at the time \<open>now\<close>. Only \<open>JSONDecodeError\<close> and \<open>IOError\<close> are caught, so
  an \<open>OverflowError\<close> reaches the caller.\<close>

definition read_cache ::
  "'p cache_dir \<Rightarrow> int \<Rightarrow> string \<Rightarrow> string \<Rightarrow> int option \<Rightarrow> py_error + 'p option" where
  "read_cache dir now cache_type key max_age_hours =
     (case dir (get_cache_path cache_type key) of
        None \<Rightarrow> Inr None
      | Some Unreadable \<Rightarrow> Inr None
      | Some (Contents cached_data) \<Rightarrow>
          (case cache_timestamp cached_data of
             None \<Rightarrow> Inr None
           | Some cached_time \<Rightarrow>
               (let age = now - cached_time
                in case timedelta_hours (determine_max_age cache_type max_age_hours) of
                     Inl e \<Rightarrow> Inl e
                   | Inr max_age \<Rightarrow>
                       if max_age < age then Inr None else Inr (data_of cached_data))))"

text \<open>\<open>write_cache\<close> at the time \<open>now\<close>; \<open>can_open\<close> tells whether opening the file for
  writing succeeds (otherwise \<open>IOError\<close> is caught and \<open>False\<close> returned).\<close>

definition write_cache ::
  "'p cache_dir \<Rightarrow> int \<Rightarrow> bool \<Rightarrow> string \<Rightarrow> string \<Rightarrow> 'p \<Rightarrow> bool \<times> 'p cache_dir" where
  "write_cache dir now can_open cache_type key payload =
     (if can_open
      then (True, dir(get_cache_path cache_type key \<mapsto>
                        Contents \<lparr> cache_timestamp = Some now,
                                   cache_type_of = cache_type,
                                   cache_key_of = key,
                                   data_of = Some payload \<rparr>))
      else (False, dir))"

section \<open>The metric extractor\<close>

lemma factor_scores_scansan:
  "calculate_factor_scores area persona ''affordability'' =
     map_option (\<lambda>ss. map_get ss ''affordability_score'' 50) (area ''scansan'')"
  "calculate_factor_scores area persona ''investment_quality'' =
     map_option (\<lambda>ss. map_get ss ''investment_quality'' 50) (area ''scansan'')"
  "calculate_factor_scores area persona ''demand_index'' =
     map_option (\<lambda>ss. map_get ss ''demand_index'' 50) (area ''scansan'')"
  "calculate_factor_scores area persona ''risk_score'' =
     map_option (\<lambda>ss. map_get ss ''risk_score'' 50) (area ''scansan'')"
  by (simp_all add: calculate_factor_scores_def Let_def split: option.splits)

text \<open>
  C10. When the \<open>scansan\<close> sub-record of an area is present, \<open>calculate_factor_scores\<close>
  defines affordability, investment\_quality, demand\_index and risk\_score, each the
  field of the sub-record or 50 when that field is missing; when the sub-record is absent
  the four factors are absent from the returned scores.
\<close>

theorem scansan_factors_default_50:
  "(\<forall>ss. area ''scansan'' = Some ss \<longrightarrow>
      calculate_factor_scores area persona ''affordability'' =
        Some (case ss ''affordability_score'' of None \<Rightarrow> 50 | Some v \<Rightarrow> v) \<and>
      calculate_factor_scores area persona ''investment_quality'' =
        Some (case ss ''investment_quality'' of None \<Rightarrow> 50 | Some v \<Rightarrow> v) \<and>
      calculate_factor_scores area persona ''demand_index'' =
        Some (case ss ''demand_index'' of None \<Rightarrow> 50 | Some v \<Rightarrow> v) \<and>
      calculate_factor_scores area persona ''risk_score'' =
        Some (case ss ''risk_score'' of None \<Rightarrow> 50 | Some v \<Rightarrow> v)) \<and>
   (area ''scansan'' = None \<longrightarrow>
      calculate_factor_scores area persona ''affordability'' = None \<and>
      calculate_factor_scores area persona ''investment_quality'' = None \<and>
      calculate_factor_scores area persona ''demand_index'' = None \<and>
      calculate_factor_scores area persona ''risk_score'' = None)"
  by (simp add: factor_scores_scansan map_get_def)

theorem scansan_factors_default_50_witness:
  "calculate_factor_scores
     [''scansan'' \<mapsto> [''affordability_score'' \<mapsto> 92, ''investment_quality'' \<mapsto> 72]]
     ''student'' ''affordability'' = Some 92 \<and>
   calculate_factor_scores
     [''scansan'' \<mapsto> [''affordability_score'' \<mapsto> 92, ''investment_quality'' \<mapsto> 72]]
     ''student'' ''investment_quality'' = Some 72 \<and>
   calculate_factor_scores
     [''scansan'' \<mapsto> [''affordability_score'' \<mapsto> 92, ''investment_quality'' \<mapsto> 72]]
     ''student'' ''demand_index'' = Some 50 \<and>
   calculate_factor_scores
     [''scansan'' \<mapsto> [''affordability_score'' \<mapsto> 92, ''investment_quality'' \<mapsto> 72]]
     ''student'' ''risk_score'' = Some 50 \<and>
   calculate_factor_scores [''commute'' \<mapsto> [''duration_minutes'' \<mapsto> 25]]
     ''student'' ''affordability'' = None \<and>
   calculate_factor_scores [''commute'' \<mapsto> [''duration_minutes'' \<mapsto> 25]]
     ''student'' ''risk_score'' = None"
  using scansan_factors_default_50
          [of "[''scansan'' \<mapsto> [''affordability_score'' \<mapsto> 92, ''investment_quality'' \<mapsto> 72]]"
              "''student''"]
        scansan_factors_default_50
          [of "[''commute'' \<mapsto> [''duration_minutes'' \<mapsto> 25]]" "''student''"]
  by simp

section \<open>The composite scorer\<close>

lemma composite_loop_fst:
  "fst (composite_loop scores ws (c, m)) =
     c + sum_list (map (\<lambda>(f, w). case scores f of Some s \<Rightarrow> s * w / 100 | None \<Rightarrow> 0) ws)"
  by (induction ws arbitrary: c m) (auto split: option.splits simp: Let_def)

lemma composite_loop_snd_other:
  "f \<notin> fst ` set ws \<Longrightarrow> snd (composite_loop scores ws (c, m)) f = m f"
  by (induction ws arbitrary: c m) (auto split: option.splits simp: Let_def)

lemma composite_loop_snd:
  "distinct (map fst ws) \<Longrightarrow> (f, w) \<in> set ws \<Longrightarrow>
   snd (composite_loop scores ws (c, m)) f =
     Some (case scores f of Some s \<Rightarrow> s * w / 100 | None \<Rightarrow> 0)"
proof (induction ws arbitrary: c m)
  case Nil
  then show ?case by simp
next
  case (Cons p ws)
  obtain g v where p: "p = (g, v)" by (cases p)
  show ?case
  proof (cases "(f, w) \<in> set ws")
    case True
    with Cons.prems Cons.IH show ?thesis
      by (auto simp: p Let_def split: option.splits)
  next
    case False
    with Cons.prems have eq: "g = f" "v = w" and notin: "f \<notin> fst ` set ws"
      by (auto simp: p)
    show ?thesis
      by (simp add: p eq Let_def composite_loop_snd_other [OF notin] split: option.splits)
  qed
qed

text \<open>
  C1 (as amended). For a weight map (a dict, so with distinct factors) and any factor
  scores, the composite is the sum, over the weighted factors that have a score, of
  \<open>score * weight / 100\<close>; a factor that carries a weight but has no score contributes
  nothing to the composite and is recorded with the contribution 0.
\<close>

theorem composite_score_absent_factor_zero:
  assumes "distinct (map fst ws)"
  shows "fst (calculate_composite_score scores ws) =
           sum_list (map (\<lambda>(f, w). case scores f of Some s \<Rightarrow> s * w / 100 | None \<Rightarrow> 0) ws) \<and>
         (\<forall>(f, w) \<in> set ws.
            snd (calculate_composite_score scores ws) f =
              Some (case scores f of Some s \<Rightarrow> s * w / 100 | None \<Rightarrow> 0))"
  using assms
  by (auto simp: calculate_composite_score_def composite_loop_fst composite_loop_snd)

theorem composite_score_absent_factor_zero_witness:
  "distinct (map fst [(''affordability'', 35 :: rat), (''investment_quality'', 5)]) \<and>
   fst (calculate_composite_score [''affordability'' \<mapsto> 92]
          [(''affordability'', 35), (''investment_quality'', 5)]) = 161 / 5 \<and>
   snd (calculate_composite_score [''affordability'' \<mapsto> 92]
          [(''affordability'', 35), (''investment_quality'', 5)]) ''affordability'' =
     Some (161 / 5) \<and>
   snd (calculate_composite_score [''affordability'' \<mapsto> 92]
          [(''affordability'', 35), (''investment_quality'', 5)]) ''investment_quality'' =
     Some 0"
  using composite_score_absent_factor_zero
          [of "[(''affordability'', 35), (''investment_quality'', 5)]"
              "[''affordability'' \<mapsto> 92]"]
  by simp

text \<open>
  The claim as stated fails: with affordability scored 92 and investment\_quality
  unscored, under the weights 35 and 5, the composite is 32.2 and the contribution of
  investment\_quality is 0, where the midpoint rule would give 34.7 and 2.5.
\<close>

theorem composite_score_midpoint_counterexample:
  "fst (calculate_composite_score [''affordability'' \<mapsto> 92]
          [(''affordability'', 35), (''investment_quality'', 5)]) = 161 / 5 \<and>
   snd (calculate_composite_score [''affordability'' \<mapsto> 92]
          [(''affordability'', 35), (''investment_quality'', 5)]) ''investment_quality'' = Some 0 \<and>
   (161 / 5 :: rat) \<noteq> 92 * 35 / 100 + 50 * 5 / 100 \<and> (0 :: rat) \<noteq> 50 * 5 / 100"
  by (simp add: calculate_composite_score_def Let_def)

section \<open>The weight resolver\<close>

lemma map_of_scale_by_importance:
  "map_of (scale_by_importance base ui) f =
     map_option (\<lambda>w. w * (dict_get ui f 5 / 5)) (map_of base f)"
  by (induction base) (auto simp: scale_by_importance_def)

lemma apply_user_weights_keys: "map fst (apply_user_weights ws uw) = map fst ws"
proof (induction uw arbitrary: ws)
  case Nil
  then show ?case by simp
next
  case (Cons p uw)
  obtain f r where p: "p = (f, r)" by (cases p)
  have "map fst (map (\<lambda>(k, v). if k = f then (k, v * m) else (k, v)) ws) = map fst ws"
    for m :: rat
    by (induction ws) auto
  then show ?case using Cons.IH by (simp add: p Let_def)
qed

lemma map_of_scale_one:
  "map_of (map (\<lambda>(k, v). if k = f then (k, v * m) else (k, v)) ws) g =
     (if g = f then map_option (\<lambda>v. v * m) (map_of ws g) else map_of ws g)"
  by (induction ws) auto

lemma apply_user_weights_other:
  "f \<notin> fst ` set uw \<Longrightarrow> map_of (apply_user_weights ws uw) f = map_of ws f"
proof (induction uw arbitrary: ws)
  case Nil
  then show ?case by simp
next
  case (Cons p uw)
  obtain g r where p: "p = (g, r)" by (cases p)
  from Cons.prems have "g \<noteq> f" "f \<notin> fst ` set uw" by (auto simp: p)
  then show ?case using Cons.IH by (simp add: p Let_def map_of_scale_one)
qed

lemma apply_user_weights_rated:
  "distinct (map fst uw) \<Longrightarrow> (f, r) \<in> set uw \<Longrightarrow> map_of ws f = Some w \<Longrightarrow>
   map_of (apply_user_weights ws uw) f = Some (w * (1 / 2 + r / 10))"
proof (induction uw arbitrary: ws w)
  case Nil
  then show ?case by simp
next
  case (Cons p uw)
  obtain g q where p: "p = (g, q)" by (cases p)
  show ?case
  proof (cases "(f, r) \<in> set uw")
    case True
    then have "g \<noteq> f" using Cons.prems(1) by (force simp: p)
    with Cons.prems True Cons.IH show ?thesis
      by (simp add: p Let_def map_of_scale_one)
  next
    case False
    with Cons.prems have eq: "g = f" "q = r" and notin: "f \<notin> fst ` set uw"
      by (auto simp: p)
    have "f \<in> set (map fst ws)"
      using Cons.prems(3) by (auto dest: map_of_SomeD intro: rev_image_eqI)
    then show ?thesis
      using Cons.prems(3)
      by (simp add: p eq Let_def apply_user_weights_other [OF notin] map_of_scale_one)
  qed
qed

text \<open>
  C2 (as amended). In \<open>calculate_adjusted_weights\<close> of the ranking engine, a factor with
  base weight \<open>w\<close> gets the pre-normalisation weight \<open>w * (r / 5)\<close>, where \<open>r\<close> is its
  importance rating, or 5 when it has none: \<open>r = 0\<close> gives 0, \<open>r = 5\<close> gives \<open>w\<close>,
  \<open>r = 10\<close> gives \<open>2 * w\<close>. In \<open>calculate_composite_score\<close> of \<open>tools/score_areas.py\<close>,
  a factor of the persona with weight \<open>w\<close> and rating \<open>r\<close> gets the pre-normalisation
  weight \<open>w * (0.5 + r / 10)\<close>.
\<close>

theorem pre_normalisation_weight:
  "(map_of base f = Some w \<longrightarrow>
      map_of (scale_by_importance base ui) f =
        Some (w * ((case map_of ui f of None \<Rightarrow> 5 | Some r \<Rightarrow> r) / 5))) \<and>
   (distinct (map fst uw) \<and> (f, r) \<in> set uw \<and> map_of ws f = Some w \<longrightarrow>
      map_of (apply_user_weights ws uw) f = Some (w * (1 / 2 + r / 10)))"
  by (simp add: map_of_scale_by_importance dict_get_def apply_user_weights_rated)

theorem pre_normalisation_weight_witness:
  "map_of [(''affordability'', 20 :: rat), (''schools'', 30)] ''affordability'' = Some 20 \<and>
   map_of (scale_by_importance [(''affordability'', 20), (''schools'', 30)]
             [(''affordability'', 10)]) ''affordability'' = Some 40 \<and>
   distinct (map fst [(''affordability'', 10 :: rat)]) \<and>
   (''affordability'', 10 :: rat) \<in> set [(''affordability'', 10)] \<and>
   map_of [(''affordability'', 20 / 100 :: rat), (''schools'', 30 / 100)] ''affordability'' =
     Some (20 / 100) \<and>
   map_of (apply_user_weights [(''affordability'', 20 / 100), (''schools'', 30 / 100)]
             [(''affordability'', 10)]) ''affordability'' = Some (30 / 100)"
  using pre_normalisation_weight
          [of "[(''affordability'', 20), (''schools'', 30)]" "''affordability''" 20
              "[(''affordability'', 10)]"]
        pre_normalisation_weight
          [of _ "''affordability''" "20 / 100" _ "[(''affordability'', 10)]" 10
              "[(''affordability'', 20 / 100), (''schools'', 30 / 100)]"]
  by simp

text \<open>
  The claim as stated fails in the ranking engine: for the parent persona, whose
  affordability weight is 20, the rating 0 gives the pre-normalisation weight 0 (not 10)
  and the rating 10 gives 40 (not 30).
\<close>

theorem pre_normalisation_weight_counterexample:
  "PERSONA_WEIGHTS ''parent'' =
     Some [(''affordability'', 20), (''schools'', 30), (''safety'', 25),
           (''commute'', 15), (''amenities'', 10)] \<and>
   map_of (scale_by_importance
             [(''affordability'', 20), (''schools'', 30), (''safety'', 25),
              (''commute'', 15), (''amenities'', 10)]
             [(''affordability'', 0)]) ''affordability'' = Some 0 \<and>
   (0 :: rat) \<noteq> 20 * (1 / 2 + 0 / 10) \<and>
   map_of (scale_by_importance
             [(''affordability'', 20), (''schools'', 30), (''safety'', 25),
              (''commute'', 15), (''amenities'', 10)]
             [(''affordability'', 10)]) ''affordability'' = Some 40 \<and>
   (40 :: rat) \<noteq> 20 * (1 / 2 + 10 / 10)"
  by (simp add: PERSONA_WEIGHTS_def scale_by_importance_def dict_get_def)









section \<open>The cache store\<close>

text \<open>
  C7 (failing input). For the category \<open>video_url\<close>, whose validity is \<open>float('inf')\<close>, a
  read after a successful write does not return the payload: building the maximal age
  raises \<open>OverflowError\<close>, whatever the directory, the key, the payload and the two times.
\<close>

theorem read_after_write_video_url_raises:
  "read_cache (snd (write_cache dir t True ''video_url'' key payload)) t'
     ''video_url'' key None = Inl OverflowError"
  by (simp add: read_cache_def write_cache_def determine_max_age_def CACHE_VALIDITY_def
        map_get_def timedelta_hours_def Let_def)



section \<open>The ranking engine\<close>

lemma score_loop_eq:
  "score_loop persona prefs ws xs (sc, fo) =
     (sc @ map (\<lambda>(code, area). score_candidate persona ws code area)
             (filter (\<lambda>(code, area). passes_constraints area prefs) xs),
      fo @ map (\<lambda>(code, area). \<lparr> filtered_code = code,
                                   reason = get_filter_reason area prefs \<rparr>)
             (filter (\<lambda>(code, area). \<not> passes_constraints area prefs) xs))"
  by (induction xs arbitrary: sc fo) auto

lemma py_slice_to_take: "\<exists>m. py_slice_to n xs = take m xs"
  by (auto simp: py_slice_to_def)

lemma sort_reverse_length: "length (sort_reverse f xs) = length xs"
  by (simp add: sort_reverse_def)

lemma sort_reverse_desc:
  "sorted_wrt (\<lambda>a b. f b \<le> f a) (sort_reverse f xs)"
proof -
  have "sorted (map (\<lambda>x. - f x) (sort_reverse f xs))"
    by (simp add: sort_reverse_def)
  then show ?thesis
    by (simp add: sorted_map sorted_wrt_iff_nth_less)
qed

lemma sort_reverse_stable:
  "filter (\<lambda>x. f x = k) (sort_reverse f xs) = filter (\<lambda>x. f x = k) xs"
  using sort_key_stable [of "\<lambda>x. - f x" "- k" xs]
  by (simp add: sort_reverse_def)

lemma sorted_wrt_take: "sorted_wrt P xs \<Longrightarrow> sorted_wrt P (take m xs)"
  by (metis append_take_drop_id sorted_wrt_append)

lemma prefix_filter_take: "prefix (filter P (take m xs)) (filter P xs)"
  by (metis append_take_drop_id filter_append prefixI)

lemma assign_ranks_length: "length (assign_ranks xs) = length xs"
  by (simp add: assign_ranks_def)

lemma assign_ranks_nth:
  "i < length xs \<Longrightarrow> assign_ranks xs ! i = (xs ! i)\<lparr>rank := Some (i + 1)\<rparr>"
  by (simp add: assign_ranks_def nth_enumerate_eq)

lemma assign_ranks_map:
  "map composite_score (assign_ranks xs) = map composite_score xs"
  "map area_code (assign_ranks xs) = map area_code xs"
  "map raw_data (assign_ranks xs) = map raw_data xs"
  by (auto simp: list_eq_iff_nth_eq assign_ranks_length assign_ranks_nth)

lemma sorted_wrt_map_eq:
  "map f xs = map f ys \<Longrightarrow> sorted_wrt (\<lambda>a b. P (f a) (f b)) xs \<Longrightarrow>
   sorted_wrt (\<lambda>a b. P (f a) (f b)) ys"
  by (metis sorted_wrt_map)

lemma filter_assign_ranks_codes:
  "map area_code (filter (\<lambda>c. composite_score c = k) (assign_ranks xs)) =
   map area_code (filter (\<lambda>c. composite_score c = k) xs)"
proof -
  have "map area_code (filter (\<lambda>c. composite_score c = k)
          (map (\<lambda>(i, candidate). candidate\<lparr>rank := Some (i + 1)\<rparr>) (enumerate n xs))) =
        map area_code (filter (\<lambda>c. composite_score c = k) xs)" for n
    by (induction xs arbitrary: n) auto
  then show ?thesis by (simp add: assign_ranks_def)
qed

lemma score_and_rank_Inr:
  assumes "score_and_rank persona prefs ed top_n = Inr out"
  shows "\<exists>ws m. adjusted_weights out = ws \<and>
           recommendations out =
             assign_ranks (take m (sort_reverse composite_score
               (map (\<lambda>(code, area). score_candidate persona ws code area)
                  (filter (\<lambda>(code, area). passes_constraints area prefs) ed)))) \<and>
           py_slice_to top_n (sort_reverse composite_score
               (map (\<lambda>(code, area). score_candidate persona ws code area)
                  (filter (\<lambda>(code, area). passes_constraints area prefs) ed))) =
             take m (sort_reverse composite_score
               (map (\<lambda>(code, area). score_candidate persona ws code area)
                  (filter (\<lambda>(code, area). passes_constraints area prefs) ed))) \<and>
           filtered_out_count out =
             length (filter (\<lambda>(code, area). \<not> passes_constraints area prefs) ed) \<and>
           filtered_out_reasons out =
             take 5 (map (\<lambda>(code, area). \<lparr> filtered_code = code,
                                           reason = get_filter_reason area prefs \<rparr>)
                      (filter (\<lambda>(code, area). \<not> passes_constraints area prefs) ed))"
proof -
  from assms obtain ws where
    ws: "calculate_adjusted_weights persona
           (case importance_weights prefs of None \<Rightarrow> [] | Some w \<Rightarrow> w) = Inr ws"
    by (auto simp: score_and_rank_def split: if_splits sum.splits)
  let ?sorted = "sort_reverse composite_score
               (map (\<lambda>(code, area). score_candidate persona ws code area)
                  (filter (\<lambda>(code, area). passes_constraints area prefs) ed))"
  obtain m where m: "py_slice_to top_n ?sorted = take m ?sorted"
    using py_slice_to_take by blast
  from assms ws m show ?thesis
    by (auto simp: score_and_rank_def score_loop_eq Let_def split: if_splits)
qed


lemma py_slice_to_length:
  "length (py_slice_to n xs) =
     (if 0 \<le> n then min (nat n) (length xs) else length xs - nat (- n))"
  by (auto simp: py_slice_to_def)

lemma ranked_desc:
  "sorted_wrt (\<lambda>a b. composite_score b \<le> composite_score a)
     (assign_ranks (take m (sort_reverse composite_score S)))"
proof -
  let ?t = "take m (sort_reverse composite_score S)"
  have "sorted_wrt (\<lambda>a b. composite_score b \<le> composite_score a) ?t"
    by (rule sorted_wrt_take) (rule sort_reverse_desc)
  then have "sorted_wrt (\<lambda>x y. y \<le> x) (map composite_score ?t)"
    by (simp add: sorted_wrt_map)
  then have "sorted_wrt (\<lambda>x y. y \<le> x) (map composite_score (assign_ranks ?t))"
    by (simp add: assign_ranks_map)
  then show ?thesis by (simp add: sorted_wrt_map)
qed

lemma ranked_stable:
  "prefix (map area_code (filter (\<lambda>c. composite_score c = k)
             (assign_ranks (take m (sort_reverse composite_score S)))))
          (map area_code (filter (\<lambda>c. composite_score c = k) S))"
proof -
  have "prefix (filter (\<lambda>c. composite_score c = k) (take m (sort_reverse composite_score S)))
               (filter (\<lambda>c. composite_score c = k) (sort_reverse composite_score S))"
    by (rule prefix_filter_take)
  then have "prefix (filter (\<lambda>c. composite_score c = k) (take m (sort_reverse composite_score S)))
               (filter (\<lambda>c. composite_score c = k) S)"
    by (simp add: sort_reverse_stable)
  then show ?thesis
    by (simp add: filter_assign_ranks_codes map_mono_prefix)
qed

lemma ranked_origin:
  assumes "c \<in> set (assign_ranks (take m (sort_reverse composite_score S)))"
  shows "\<exists>c' \<in> set S. \<exists>r. c = c'\<lparr>rank := r\<rparr>"
proof -
  let ?t = "take m (sort_reverse composite_score S)"
  from assms obtain i where i: "i < length ?t" and c: "c = assign_ranks ?t ! i"
    by (auto simp: in_set_conv_nth assign_ranks_length)
  have "?t ! i \<in> set ?t" using i by (rule nth_mem)
  then have "?t ! i \<in> set (sort_reverse composite_score S)" by (rule in_set_takeD)
  then have "?t ! i \<in> set S" by (simp add: sort_reverse_def)
  with c i show ?thesis by (auto simp: assign_ranks_nth)
qed

lemma score_candidate_fields:
  "area_code (score_candidate persona ws code area) = code"
  "raw_data (score_candidate persona ws code area) = area"
  "composite_score (score_candidate persona ws code area) =
     py_round (fst (calculate_composite_score (calculate_factor_scores area persona) ws)) 1"
  by (simp_all add: score_candidate_def Let_def split: prod.splits)

lemma map_filter_map_filter:
  "map f (filter P (map g (filter Q xs))) =
     map (\<lambda>x. f (g x)) (filter (\<lambda>x. Q x \<and> P (g x)) xs)"
  by (induction xs) simp_all

lemma scored_codes:
  "map area_code (filter (\<lambda>c. composite_score c = k)
     (map (\<lambda>(code, area). score_candidate persona ws code area)
        (filter (\<lambda>(code, area). passes_constraints area prefs) ed))) =
   map fst (filter (\<lambda>(code, area). passes_constraints area prefs \<and>
              composite_score (score_candidate persona ws code area) = k) ed)"
  by (simp add: map_filter_map_filter case_prod_unfold score_candidate_fields(1))




lemma floor_rat_numeral:
  "\<lfloor>numeral a / numeral b :: rat\<rfloor> = numeral a div numeral b"
  by (metis floor_divide_of_int_eq of_int_numeral)

lemma length_filter_pass_fail:
  "length (filter (\<lambda>(code, area). P area) xs) +
   length (filter (\<lambda>(code, area). \<not> P area) xs) = length xs"
  by (induction xs) auto

text \<open>
  C5 (as amended). Every input area is either scored or counted as filtered out. The
  recommendations are the first \<open>top_n\<close> scored candidates, so their number is the
  minimum of \<open>top_n\<close> and the number of areas that pass the constraints (for a negative
  \<open>top_n\<close>, that many candidates are dropped from the end); it adds up with
  \<open>filtered_out_count\<close> to at most the number of input areas. The sample of reasons has
  the first 5 filtered areas at most.
\<close>

theorem recommendations_and_filtered_count:
  assumes "score_and_rank persona prefs ed top_n = Inr out"
  shows "filtered_out_count out =
           length (filter (\<lambda>(code, area). \<not> passes_constraints area prefs) ed) \<and>
         length (recommendations out) =
           (if 0 \<le> top_n then min (nat top_n) (length ed - filtered_out_count out)
            else length ed - filtered_out_count out - nat (- top_n)) \<and>
         length (recommendations out) + filtered_out_count out \<le> length ed \<and>
         length (filtered_out_reasons out) = min 5 (filtered_out_count out)"
proof -
  let ?P = "\<lambda>(code, area). passes_constraints area prefs"
  let ?S = "map (\<lambda>(code, area). score_candidate persona (adjusted_weights out) code area)
              (filter ?P ed)"
  let ?sorted = "sort_reverse composite_score ?S"
  from score_and_rank_Inr [OF assms] obtain m where
    recs: "recommendations out = assign_ranks (take m ?sorted)"
    and slice: "py_slice_to top_n ?sorted = take m ?sorted"
    and cnt: "filtered_out_count out = length (filter (\<lambda>(code, area). \<not> passes_constraints area prefs) ed)"
    and rs: "filtered_out_reasons out =
               take 5 (map (\<lambda>(code, area). \<lparr> filtered_code = code,
                                              reason = get_filter_reason area prefs \<rparr>)
                        (filter (\<lambda>(code, area). \<not> passes_constraints area prefs) ed))"
    by auto
  have "length (filter ?P ed) +
          length (filter (\<lambda>(code, area). \<not> passes_constraints area prefs) ed) = length ed"
    by (rule length_filter_pass_fail)
  then have split: "length (filter ?P ed) = length ed - filtered_out_count out"
    and le: "filtered_out_count out \<le> length ed"
    using cnt by linarith+
  have "length (recommendations out) = length (py_slice_to top_n ?sorted)"
    by (simp only: recs slice assign_ranks_length)
  then have len: "length (recommendations out) =
      (if 0 \<le> top_n then min (nat top_n) (length ed - filtered_out_count out)
       else length ed - filtered_out_count out - nat (- top_n))"
    by (simp add: py_slice_to_length sort_reverse_length split)
  have bound: "length (recommendations out) + filtered_out_count out \<le> length ed"
    using len le by (simp split: if_splits)
  have sample: "length (filtered_out_reasons out) = min 5 (filtered_out_count out)"
    by (simp add: rs cnt)
  show ?thesis
    by (intro conjI) (rule cnt, rule len, rule bound, rule sample)
qed

text \<open>
  The claim as stated fails: with \<open>top_n = 1\<close> and two areas that both pass, one area is
  recommended and none is counted as filtered out.
\<close>

theorem recommendations_and_filtered_count_counterexample:
  "map_sum id (length \<circ> recommendations)
     (score_and_rank ''student''
        \<lparr> budget_max = None, max_commute_minutes = None, min_safety_score = None,
          min_school_rating = None, importance_weights = None \<rparr>
        [(''A'', [''scansan'' \<mapsto> [''affordability_score'' \<mapsto> 70]]),
         (''B'', [''scansan'' \<mapsto> [''affordability_score'' \<mapsto> 90]])] 1) = Inr 1 \<and>
   map_sum id filtered_out_count
     (score_and_rank ''student''
        \<lparr> budget_max = None, max_commute_minutes = None, min_safety_score = None,
          min_school_rating = None, importance_weights = None \<rparr>
        [(''A'', [''scansan'' \<mapsto> [''affordability_score'' \<mapsto> 70]]),
         (''B'', [''scansan'' \<mapsto> [''affordability_score'' \<mapsto> 90]])] 1) = Inr 0 \<and>
   length [(''A'', [''scansan'' \<mapsto> [''affordability_score'' \<mapsto> 70 :: rat]]),
           (''B'', [''scansan'' \<mapsto> [''affordability_score'' \<mapsto> 90]])] = 2"
  by (simp add: score_and_rank_def PERSONA_WEIGHTS_def calculate_adjusted_weights_def
     passes_constraints_def score_candidate_def calculate_factor_scores_def
     calculate_composite_score_def map_get_def Let_def py_round_def round_half_even_def
     floor_rat_numeral sort_reverse_def py_slice_to_def assign_ranks_def enumerate_eq_zip)

theorem recommendations_and_filtered_count_witness:
  "\<exists>out. score_and_rank ''student''
        \<lparr> budget_max = Some 1200, max_commute_minutes = None, min_safety_score = None,
          min_school_rating = None, importance_weights = None \<rparr>
        [(''A'', [''scansan'' \<mapsto> [''affordability_score'' \<mapsto> 70, ''avg_price'' \<mapsto> 1500]]),
         (''B'', [''scansan'' \<mapsto> [''affordability_score'' \<mapsto> 90, ''avg_price'' \<mapsto> 1000]])] 10
       = Inr out \<and>
     filtered_out_count out = 1 \<and> length (recommendations out) = 1 \<and>
     length (filtered_out_reasons out) = 1"
proof -
  let ?r = "score_and_rank ''student''
        \<lparr> budget_max = Some 1200, max_commute_minutes = None, min_safety_score = None,
          min_school_rating = None, importance_weights = None \<rparr>
        [(''A'', [''scansan'' \<mapsto> [''affordability_score'' \<mapsto> 70, ''avg_price'' \<mapsto> 1500]]),
         (''B'', [''scansan'' \<mapsto> [''affordability_score'' \<mapsto> 90, ''avg_price'' \<mapsto> 1000]])] 10"
  obtain out where out: "?r = Inr out"
    by (cases ?r)
       (simp_all add: score_and_rank_def PERSONA_WEIGHTS_def calculate_adjusted_weights_def
          Let_def split: prod.splits)
  show ?thesis
    using out recommendations_and_filtered_count [OF out]
    by (simp add: passes_constraints_def exceeds_or_inf_def)
qed


section \<open>Unknown personas\<close>

lemma PERSONA_WEIGHTS_tools_keys:
  "PERSONA_WEIGHTS_tools persona = Some w \<Longrightarrow>
   map fst w = [''affordability'', ''commute'', ''safety'', ''amenities'', ''schools'',
                ''investment'']"
  by (auto simp: PERSONA_WEIGHTS_tools_def split: if_splits)

lemma map_fst_scale: "map fst (map (\<lambda>(k, v). (k, h v)) ws) = map fst ws"
  by (induction ws) auto

lemma resolve_weights_tools_keys:
  "map fst (resolve_weights_tools persona user_weights) =
     [''affordability'', ''commute'', ''safety'', ''amenities'', ''schools'', ''investment'']"
proof -
  let ?K = "[''affordability'', ''commute'', ''safety'', ''amenities'', ''schools'',
             ''investment'']"
  let ?ws = "case PERSONA_WEIGHTS_tools persona of
                  Some w \<Rightarrow> w
                | None \<Rightarrow> [(''affordability'', 35 / 100), (''commute'', 25 / 100),
                           (''safety'', 15 / 100), (''amenities'', 15 / 100),
                           (''schools'', 0), (''investment'', 10 / 100)]"
  have k0: "map fst ?ws = ?K"
    by (cases "PERSONA_WEIGHTS_tools persona") (simp_all add: PERSONA_WEIGHTS_tools_keys)
  show ?thesis
  proof (cases user_weights)
    case None
    then show ?thesis using k0 by (simp add: resolve_weights_tools_def)
  next
    case (Some uw)
    have "map fst (apply_user_weights ?ws uw) = ?K"
      by (simp only: apply_user_weights_keys k0)
    moreover have "map fst (map (\<lambda>(k, v). (k, v / t)) (apply_user_weights ?ws uw)) = ?K" for t
      by (simp only: map_fst_scale apply_user_weights_keys k0)
    ultimately show ?thesis
      using Some k0 by (simp add: resolve_weights_tools_def Let_def)
  qed
qed

lemma weighted_sum_total:
  "\<forall>f \<in> set (map fst ws). map_of fs f \<noteq> None \<Longrightarrow> \<exists>t. weighted_sum fs ws acc = Inr t"
  by (induction ws arbitrary: acc) auto

lemma weighted_sum_resolved_total:
  assumes "map fst fs = [''affordability'', ''commute'', ''safety'', ''amenities'',
                         ''schools'', ''investment'']"
  shows "\<exists>t. weighted_sum fs (resolve_weights_tools persona user_weights) acc = Inr t"
proof (rule weighted_sum_total)
  show "\<forall>f \<in> set (map fst (resolve_weights_tools persona user_weights)). map_of fs f \<noteq> None"
    unfolding resolve_weights_tools_keys assms [symmetric]
    by (metis map_of_eq_None_iff set_map)
qed

lemma calculate_composite_score_tools_total:
  "\<exists>sd. calculate_composite_score_tools enrichment persona user_weights = Inr sd"
proof -
  define fs where "fs =
     [(''affordability'', map_get (map_get enrichment ''scansan'' Map.empty) ''affordability_score'' 50),
      (''commute'', 100 - min 100 (map_get (map_get enrichment ''commute'' Map.empty)
                                     ''duration_minutes'' 30 / 60 * 100)),
      (''safety'', map_get (map_get enrichment ''crime'' Map.empty) ''safety_score'' 50),
      (''amenities'', map_get (map_get enrichment ''amenities'' Map.empty) ''density_score'' 50),
      (''schools'', map_get (map_get enrichment ''schools'' Map.empty) ''avg_quality_score'' 50),
      (''investment'', map_get (map_get enrichment ''scansan'' Map.empty) ''investment_quality'' 50)]"
  have "map fst fs = [''affordability'', ''commute'', ''safety'', ''amenities'',
                      ''schools'', ''investment'']"
    by (simp add: fs_def)
  from weighted_sum_resolved_total [OF this, of persona user_weights 0]
  obtain t where t: "weighted_sum fs (resolve_weights_tools persona user_weights) 0 = Inr t"
    by blast
  have "calculate_composite_score_tools enrichment persona user_weights =
          (case weighted_sum fs (resolve_weights_tools persona user_weights) 0 of
             Inl e \<Rightarrow> Inl e
           | Inr composite \<Rightarrow>
               Inr \<lparr> sd_composite_score = py_round composite 1,
                     sd_factor_scores = fs,
                     sd_weights_applied = resolve_weights_tools persona user_weights \<rparr>)"
    unfolding calculate_composite_score_tools_def Let_def fs_def by (rule refl)
  then show ?thesis by (simp add: t)
qed

lemma calculate_composite_score_tools_rounded:
  "calculate_composite_score_tools enrichment persona user_weights = Inr sd \<Longrightarrow>
   \<exists>x. weighted_sum (sd_factor_scores sd) (sd_weights_applied sd) 0 = Inr x \<and>
       sd_composite_score sd = py_round x 1"
  unfolding calculate_composite_score_tools_def Let_def
  by (auto split: sum.splits)

lemma resolve_weights_tools_unknown:
  "PERSONA_WEIGHTS_tools persona = None \<Longrightarrow>
   resolve_weights_tools persona user_weights = resolve_weights_tools ''student'' user_weights"
  by (simp add: resolve_weights_tools_def PERSONA_WEIGHTS_tools_def)

text \<open>
  C9 (as amended). For a persona name that is not in its table, \<open>score_and_rank\<close> fails
  with \<open>ValueError\<close>, whatever the other arguments. The scorer of
  \<open>tools/score_areas.py\<close> does not fail for a name that is not in its table: it
  returns the very result it returns for the persona \<open>student\<close>.
\<close>

theorem unknown_persona:
  "(PERSONA_WEIGHTS persona = None \<longrightarrow>
      score_and_rank persona prefs ed top_n = Inl ValueError) \<and>
   (PERSONA_WEIGHTS_tools persona = None \<longrightarrow>
      (\<exists>sd. calculate_composite_score_tools area persona user_weights = Inr sd \<and>
            calculate_composite_score_tools area ''student'' user_weights = Inr sd))"
proof (intro conjI impI)
  assume "PERSONA_WEIGHTS persona = None"
  then show "score_and_rank persona prefs ed top_n = Inl ValueError"
    by (simp add: score_and_rank_def)
next
  assume "PERSONA_WEIGHTS_tools persona = None"
  then have "calculate_composite_score_tools area persona user_weights =
             calculate_composite_score_tools area ''student'' user_weights"
    by (simp add: calculate_composite_score_tools_def resolve_weights_tools_unknown)
  with calculate_composite_score_tools_total [of area persona user_weights]
  show "\<exists>sd. calculate_composite_score_tools area persona user_weights = Inr sd \<and>
            calculate_composite_score_tools area ''student'' user_weights = Inr sd"
    by auto
qed

text \<open>
  The claim as stated fails for the tools scorer: the unknown persona \<open>wizard\<close> is scored,
  with the student weights, 50 on an area without data.
\<close>

theorem unknown_persona_counterexample:
  "PERSONA_WEIGHTS_tools ''wizard'' = None \<and>
   calculate_composite_score_tools Map.empty ''wizard'' None =
     Inr \<lparr> sd_composite_score = 50,
           sd_factor_scores =
             [(''affordability'', 50), (''commute'', 50), (''safety'', 50),
              (''amenities'', 50), (''schools'', 50), (''investment'', 50)],
           sd_weights_applied =
             [(''affordability'', 35 / 100), (''commute'', 25 / 100), (''safety'', 15 / 100),
              (''amenities'', 15 / 100), (''schools'', 0), (''investment'', 10 / 100)] \<rparr>"
  by (simp add: calculate_composite_score_tools_def resolve_weights_tools_def
       PERSONA_WEIGHTS_tools_def map_get_def Let_def py_round_def round_half_even_def)

theorem unknown_persona_witness:
  "PERSONA_WEIGHTS ''wizard'' = None \<and>
   score_and_rank ''wizard''
     \<lparr> budget_max = None, max_commute_minutes = None, min_safety_score = None,
       min_school_rating = None, importance_weights = None \<rparr>
     [(''A'', Map.empty)] 10 = Inl ValueError \<and>
   PERSONA_WEIGHTS_tools ''wizard'' = None \<and>
   (\<exists>sd. calculate_composite_score_tools Map.empty ''wizard'' None = Inr sd \<and>
         calculate_composite_score_tools Map.empty ''student'' None = Inr sd)"
  using unknown_persona [of "''wizard''"
      "\<lparr> budget_max = None, max_commute_minutes = None, min_safety_score = None,
         min_school_rating = None, importance_weights = None \<rparr>"
      "[(''A'', Map.empty)]" 10 Map.empty None]
  by (simp add: PERSONA_WEIGHTS_def PERSONA_WEIGHTS_tools_def)

section \<open>The sort key\<close>

lemma map_enumerate_inv:
  assumes "\<And>i x. f (g i x) = f x"
  shows "map f (map (\<lambda>(i, x). g i x) (enumerate n xs)) = map f xs"
  by (induction xs arbitrary: n) (simp_all add: assms)

lemma filter_enumerate_inv:
  assumes "\<And>i x. P (g i x) = P x" "\<And>i x. f (g i x) = f x"
  shows "map f (filter P (map (\<lambda>(i, x). g i x) (enumerate n xs))) = map f (filter P xs)"
  by (induction xs arbitrary: n) (simp_all add: assms)

lemma set_enumerate_origin:
  "r \<in> set (map (\<lambda>(i, x). g i x) (enumerate n xs)) \<Longrightarrow> \<exists>i. \<exists>x \<in> set xs. r = g i x"
  by (auto simp: enumerate_eq_zip dest: set_zip_rightD)

lemma build_recommendations_eq:
  "build_recommendations persona uw xs acc =
     Inr (acc @ map (\<lambda>area.
        \<lparr> rec_area_code = ea_area_code area,
          rec_rank = 0,
          rec_composite_score = sd_composite_score
            (projr (calculate_composite_score_tools (ea_sub_records area) persona uw)),
          rec_factor_breakdown = sd_factor_scores
            (projr (calculate_composite_score_tools (ea_sub_records area) persona uw)),
          rec_enrichment_data = area \<rparr>) xs)"
proof (induction xs arbitrary: acc)
  case Nil
  then show ?case by simp
next
  case (Cons a xs)
  obtain sd where "calculate_composite_score_tools (ea_sub_records a) persona uw = Inr sd"
    using calculate_composite_score_tools_total by blast
  then show ?case by (simp add: Cons.IH)
qed

lemma rank_areas_Inr:
  assumes "rank_areas areas persona uw limit = Inr recs"
  shows "\<exists>m. recs = map (\<lambda>(i, r). r\<lparr>rec_rank := i\<rparr>)
           (enumerate 1 (take m (sort_reverse rec_composite_score
              (map (\<lambda>area.
                 \<lparr> rec_area_code = ea_area_code area,
                   rec_rank = 0,
                   rec_composite_score = sd_composite_score
                     (projr (calculate_composite_score_tools (ea_sub_records area) persona uw)),
                   rec_factor_breakdown = sd_factor_scores
                     (projr (calculate_composite_score_tools (ea_sub_records area) persona uw)),
                   rec_enrichment_data = area \<rparr>) areas))))"
proof -
  let ?sorted = "sort_reverse rec_composite_score
              (map (\<lambda>area.
                 \<lparr> rec_area_code = ea_area_code area,
                   rec_rank = 0,
                   rec_composite_score = sd_composite_score
                     (projr (calculate_composite_score_tools (ea_sub_records area) persona uw)),
                   rec_factor_breakdown = sd_factor_scores
                     (projr (calculate_composite_score_tools (ea_sub_records area) persona uw)),
                   rec_enrichment_data = area \<rparr>) areas)"
  obtain m where "py_slice_to limit ?sorted = take m ?sorted"
    using py_slice_to_take by blast
  with assms show ?thesis
    by (auto simp: rank_areas_def build_recommendations_eq [of persona uw areas "[]", simplified])
qed



lemma rank_areas_sorted:
  assumes "rank_areas areas persona uw limit = Inr recs"
  shows "sorted_wrt (\<lambda>a b. rec_composite_score b \<le> rec_composite_score a) recs"
proof -
  let ?R = "map (\<lambda>area.
                 \<lparr> rec_area_code = ea_area_code area,
                   rec_rank = 0,
                   rec_composite_score = sd_composite_score
                     (projr (calculate_composite_score_tools (ea_sub_records area) persona uw)),
                   rec_factor_breakdown = sd_factor_scores
                     (projr (calculate_composite_score_tools (ea_sub_records area) persona uw)),
                   rec_enrichment_data = area \<rparr>) areas"
  from rank_areas_Inr [OF assms] obtain m where
    recs: "recs = map (\<lambda>(i, r). r\<lparr>rec_rank := i\<rparr>)
                    (enumerate 1 (take m (sort_reverse rec_composite_score ?R)))"
    by blast
  let ?t = "take m (sort_reverse rec_composite_score ?R)"
  have mapcs: "map rec_composite_score recs = map rec_composite_score ?t"
    unfolding recs
    by (rule map_enumerate_inv [where g = "\<lambda>i r. r\<lparr>rec_rank := i\<rparr>"]) simp
  have "sorted_wrt (\<lambda>a b. rec_composite_score b \<le> rec_composite_score a) ?t"
    by (rule sorted_wrt_take) (rule sort_reverse_desc)
  then have "sorted_wrt (\<lambda>x y. y \<le> x) (map rec_composite_score ?t)"
    by (simp add: sorted_wrt_map)
  then have "sorted_wrt (\<lambda>x y. y \<le> x) (map rec_composite_score recs)"
    by (simp only: mapcs)
  then show ?thesis
    by (simp add: sorted_wrt_map)
qed

lemma rank_areas_rounded:
  assumes "rank_areas areas persona uw limit = Inr recs" and "r \<in> set recs"
  shows "\<exists>sd x. calculate_composite_score_tools
                     (ea_sub_records (rec_enrichment_data r)) persona uw = Inr sd \<and>
                  weighted_sum (sd_factor_scores sd) (sd_weights_applied sd) 0 = Inr x \<and>
                  rec_composite_score r = py_round x 1"
proof -
  let ?R = "map (\<lambda>area.
                 \<lparr> rec_area_code = ea_area_code area,
                   rec_rank = 0,
                   rec_composite_score = sd_composite_score
                     (projr (calculate_composite_score_tools (ea_sub_records area) persona uw)),
                   rec_factor_breakdown = sd_factor_scores
                     (projr (calculate_composite_score_tools (ea_sub_records area) persona uw)),
                   rec_enrichment_data = area \<rparr>) areas"
  from rank_areas_Inr [OF assms(1)] obtain m where
    recs: "recs = map (\<lambda>(i, r). r\<lparr>rec_rank := i\<rparr>)
                    (enumerate 1 (take m (sort_reverse rec_composite_score ?R)))"
    by blast
  let ?t = "take m (sort_reverse rec_composite_score ?R)"
  from assms(2) have "r \<in> set (map (\<lambda>(i, r). r\<lparr>rec_rank := i\<rparr>) (enumerate 1 ?t))"
    by (simp only: recs)
  from set_enumerate_origin [where g = "\<lambda>i r. r\<lparr>rec_rank := i\<rparr>", OF this]
  obtain i r' where r': "r' \<in> set ?t" "r = r'\<lparr>rec_rank := i\<rparr>"
    by blast
  from r'(1) have "r' \<in> set (sort_reverse rec_composite_score ?R)" by (rule in_set_takeD)
  then have "r' \<in> set ?R" by (simp add: sort_reverse_def)
  then obtain area where area: "r' = (\<lambda>area.
                 \<lparr> rec_area_code = ea_area_code area,
                   rec_rank = 0,
                   rec_composite_score = sd_composite_score
                     (projr (calculate_composite_score_tools (ea_sub_records area) persona uw)),
                   rec_factor_breakdown = sd_factor_scores
                     (projr (calculate_composite_score_tools (ea_sub_records area) persona uw)),
                   rec_enrichment_data = area \<rparr>) area"
    by (auto simp: image_iff)
  obtain sd where sd: "calculate_composite_score_tools (ea_sub_records area) persona uw = Inr sd"
    using calculate_composite_score_tools_total by blast
  from calculate_composite_score_tools_rounded [OF sd] obtain x where
    x: "weighted_sum (sd_factor_scores sd) (sd_weights_applied sd) 0 = Inr x"
      "sd_composite_score sd = py_round x 1" by blast
  have "rec_enrichment_data r = area" "rec_composite_score r = sd_composite_score sd"
    by (simp_all add: r'(2) area sd)
  with sd x show ?thesis by simp
qed

lemma rank_areas_stable:
  assumes "rank_areas areas persona uw limit = Inr recs"
  shows "prefix (map rec_enrichment_data (filter (\<lambda>r. rec_composite_score r = k) recs))
           (filter (\<lambda>area. map_sum id sd_composite_score
                      (calculate_composite_score_tools (ea_sub_records area) persona uw) = Inr k)
              areas)"
proof -
  let ?R = "map (\<lambda>area.
                 \<lparr> rec_area_code = ea_area_code area,
                   rec_rank = 0,
                   rec_composite_score = sd_composite_score
                     (projr (calculate_composite_score_tools (ea_sub_records area) persona uw)),
                   rec_factor_breakdown = sd_factor_scores
                     (projr (calculate_composite_score_tools (ea_sub_records area) persona uw)),
                   rec_enrichment_data = area \<rparr>) areas"
  from rank_areas_Inr [OF assms(1)] obtain m where
    recs: "recs = map (\<lambda>(i, r). r\<lparr>rec_rank := i\<rparr>)
                    (enumerate 1 (take m (sort_reverse rec_composite_score ?R)))"
    by blast
  let ?t = "take m (sort_reverse rec_composite_score ?R)"
  have e1: "map rec_enrichment_data (filter (\<lambda>r. rec_composite_score r = k) recs) =
        map rec_enrichment_data (filter (\<lambda>r. rec_composite_score r = k) ?t)"
    unfolding recs
    by (rule filter_enumerate_inv [where g = "\<lambda>i r. r\<lparr>rec_rank := i\<rparr>"]) simp_all
  have "prefix (filter (\<lambda>r. rec_composite_score r = k) ?t)
               (filter (\<lambda>r. rec_composite_score r = k) (sort_reverse rec_composite_score ?R))"
    by (rule prefix_filter_take)
  then have "prefix (filter (\<lambda>r. rec_composite_score r = k) ?t)
               (filter (\<lambda>r. rec_composite_score r = k) ?R)"
    by (simp only: sort_reverse_stable)
  then have e2: "prefix (map rec_enrichment_data (filter (\<lambda>r. rec_composite_score r = k) ?t))
               (map rec_enrichment_data (filter (\<lambda>r. rec_composite_score r = k) ?R))"
    by (rule map_mono_prefix)
  have eq: "(sd_composite_score
             (projr (calculate_composite_score_tools (ea_sub_records area) persona uw)) = k) =
          (map_sum id sd_composite_score
             (calculate_composite_score_tools (ea_sub_records area) persona uw) = Inr k)"
    for area :: enriched_area
    using calculate_composite_score_tools_total [of "ea_sub_records area" persona uw]
    by auto
  have "map rec_enrichment_data (filter (\<lambda>r. rec_composite_score r = k) ?R) =
          filter (\<lambda>area. sd_composite_score
             (projr (calculate_composite_score_tools (ea_sub_records area) persona uw)) = k) areas"
    by (simp add: filter_map comp_def)
  also have "\<dots> = filter (\<lambda>area. map_sum id sd_composite_score
                      (calculate_composite_score_tools (ea_sub_records area) persona uw) = Inr k)
              areas"
    by (simp only: eq)
  finally have e3: "map rec_enrichment_data (filter (\<lambda>r. rec_composite_score r = k) ?R) =
     filter (\<lambda>area. map_sum id sd_composite_score
                      (calculate_composite_score_tools (ea_sub_records area) persona uw) = Inr k)
              areas" .
  from e2 show ?thesis by (simp only: e1 e3)
qed

lemma rank_areas_total: "\<exists>recs. rank_areas areas persona uw limit = Inr recs"
  by (simp add: rank_areas_def build_recommendations_eq)

text \<open>
  C4 (as amended). Candidates are ordered by the composite score rounded to one decimal:
  the reported \<open>composite_score\<close> is the rounded value and it is the sort key, in
  \<open>score_and_rank\<close> and in \<open>rank_areas\<close>. The output is in descending order of that
  rounded value, and candidates whose composites round to the same value keep their input
  order, whatever the unrounded values are.
\<close>

theorem ranked_by_rounded_composite:
  "(score_and_rank persona prefs ed top_n = Inr out \<longrightarrow>
      sorted_wrt (\<lambda>a b. composite_score b \<le> composite_score a) (recommendations out) \<and>
      (\<forall>c \<in> set (recommendations out).
         composite_score c =
           py_round (fst (calculate_composite_score
                            (calculate_factor_scores (raw_data c) persona)
                            (adjusted_weights out))) 1) \<and>
      (\<forall>k. prefix
         (map area_code (filter (\<lambda>c. composite_score c = k) (recommendations out)))
         (map fst (filter (\<lambda>(code, area). passes_constraints area prefs \<and>
            py_round (fst (calculate_composite_score
                             (calculate_factor_scores area persona)
                             (adjusted_weights out))) 1 = k) ed)))) \<and>
   (rank_areas areas persona uw limit = Inr recs \<longrightarrow>
      sorted_wrt (\<lambda>a b. rec_composite_score b \<le> rec_composite_score a) recs \<and>
      (\<forall>r \<in> set recs.
         \<exists>sd x. calculate_composite_score_tools
                   (ea_sub_records (rec_enrichment_data r)) persona uw = Inr sd \<and>
                weighted_sum (sd_factor_scores sd) (sd_weights_applied sd) 0 = Inr x \<and>
                rec_composite_score r = py_round x 1) \<and>
      (\<forall>k. prefix
         (map rec_enrichment_data (filter (\<lambda>r. rec_composite_score r = k) recs))
         (filter (\<lambda>area. map_sum id sd_composite_score
                    (calculate_composite_score_tools (ea_sub_records area) persona uw) = Inr k)
            areas)))"
proof (intro conjI impI)
  assume sr: "score_and_rank persona prefs ed top_n = Inr out"
  let ?S = "map (\<lambda>(code, area). score_candidate persona (adjusted_weights out) code area)
              (filter (\<lambda>(code, area). passes_constraints area prefs) ed)"
  from score_and_rank_Inr [OF sr] obtain m where
    recs: "recommendations out = assign_ranks (take m (sort_reverse composite_score ?S))"
    by auto
  show "sorted_wrt (\<lambda>a b. composite_score b \<le> composite_score a) (recommendations out)"
    unfolding recs by (rule ranked_desc)
  show "\<forall>c \<in> set (recommendations out).
         composite_score c =
           py_round (fst (calculate_composite_score
                            (calculate_factor_scores (raw_data c) persona)
                            (adjusted_weights out))) 1"
  proof
    fix c assume "c \<in> set (recommendations out)"
    then have "c \<in> set (assign_ranks (take m (sort_reverse composite_score ?S)))"
      by (simp only: recs)
    from ranked_origin [OF this] obtain c' r where
      c': "c' \<in> set ?S" "c = c'\<lparr>rank := r\<rparr>" by blast
    from c'(1) obtain code area where
      "c' = score_candidate persona (adjusted_weights out) code area" by auto
    then show "composite_score c =
           py_round (fst (calculate_composite_score
                            (calculate_factor_scores (raw_data c) persona)
                            (adjusted_weights out))) 1"
      by (simp add: c'(2) score_candidate_fields)
  qed
  show "\<forall>k. prefix
         (map area_code (filter (\<lambda>c. composite_score c = k) (recommendations out)))
         (map fst (filter (\<lambda>(code, area). passes_constraints area prefs \<and>
            py_round (fst (calculate_composite_score
                             (calculate_factor_scores area persona)
                             (adjusted_weights out))) 1 = k) ed))"
  proof
    fix k
    show "prefix
         (map area_code (filter (\<lambda>c. composite_score c = k) (recommendations out)))
         (map fst (filter (\<lambda>(code, area). passes_constraints area prefs \<and>
            py_round (fst (calculate_composite_score
                             (calculate_factor_scores area persona)
                             (adjusted_weights out))) 1 = k) ed))"
      using ranked_stable [of k m ?S]
      by (simp only: recs scored_codes score_candidate_fields(3))
  qed
next
  assume ra: "rank_areas areas persona uw limit = Inr recs"
  show "sorted_wrt (\<lambda>a b. rec_composite_score b \<le> rec_composite_score a) recs"
    using ra by (rule rank_areas_sorted)
  show "\<forall>r \<in> set recs.
         \<exists>sd x. calculate_composite_score_tools
                   (ea_sub_records (rec_enrichment_data r)) persona uw = Inr sd \<and>
                weighted_sum (sd_factor_scores sd) (sd_weights_applied sd) 0 = Inr x \<and>
                rec_composite_score r = py_round x 1"
    using rank_areas_rounded [OF ra] by blast
  show "\<forall>k. prefix
         (map rec_enrichment_data (filter (\<lambda>r. rec_composite_score r = k) recs))
         (filter (\<lambda>area. map_sum id sd_composite_score
                    (calculate_composite_score_tools (ea_sub_records area) persona uw) = Inr k)
            areas)"
    using rank_areas_stable [OF ra] by blast
qed

theorem ranked_by_rounded_composite_witness:
  "(\<exists>out. score_and_rank ''student''
        \<lparr> budget_max = None, max_commute_minutes = None, min_safety_score = None,
          min_school_rating = None, importance_weights = None \<rparr>
        [(''A'', [''scansan'' \<mapsto> [''affordability_score'' \<mapsto> 70]]),
         (''B'', [''scansan'' \<mapsto> [''affordability_score'' \<mapsto> 701 / 10]])] 10 = Inr out \<and>
      sorted_wrt (\<lambda>a b. composite_score b \<le> composite_score a) (recommendations out)) \<and>
   (\<exists>recs. rank_areas
        [\<lparr> ea_area_code = Some ''E1'',
           ea_sub_records = [''scansan'' \<mapsto> [''affordability_score'' \<mapsto> 75]] \<rparr>,
         \<lparr> ea_area_code = Some ''SW1'',
           ea_sub_records = [''scansan'' \<mapsto> [''affordability_score'' \<mapsto> 25]] \<rparr>] ''student'' None 10 = Inr recs \<and>
      sorted_wrt (\<lambda>a b. rec_composite_score b \<le> rec_composite_score a) recs)"
proof -
  let ?r = "score_and_rank ''student''
        \<lparr> budget_max = None, max_commute_minutes = None, min_safety_score = None,
          min_school_rating = None, importance_weights = None \<rparr>
        [(''A'', [''scansan'' \<mapsto> [''affordability_score'' \<mapsto> 70]]),
         (''B'', [''scansan'' \<mapsto> [''affordability_score'' \<mapsto> 701 / 10]])] 10"
  let ?areas = "[\<lparr> ea_area_code = Some ''E1'',
           ea_sub_records = [''scansan'' \<mapsto> [''affordability_score'' \<mapsto> 75]] \<rparr>,
         \<lparr> ea_area_code = Some ''SW1'',
           ea_sub_records = [''scansan'' \<mapsto> [''affordability_score'' \<mapsto> 25]] \<rparr>]"
  obtain out where out: "?r = Inr out"
    by (cases ?r)
       (simp_all add: score_and_rank_def PERSONA_WEIGHTS_def calculate_adjusted_weights_def
          Let_def split: prod.splits)
  obtain recs where recs: "rank_areas ?areas ''student'' None 10 = Inr recs"
    using rank_areas_total by blast
  show ?thesis
    using out recs
      ranked_by_rounded_composite [where persona = "''student''" and out = out and recs = recs
          and prefs = "\<lparr> budget_max = None, max_commute_minutes = None, min_safety_score = None,
          min_school_rating = None, importance_weights = None \<rparr>"
          and ed = "[(''A'', [''scansan'' \<mapsto> [''affordability_score'' \<mapsto> 70]]),
         (''B'', [''scansan'' \<mapsto> [''affordability_score'' \<mapsto> 701 / 10]])]" and top_n = 10 and areas = ?areas and uw = None and limit = 10]
    by blast
qed

text \<open>
  The claim as stated fails: the areas A and B have the unrounded composites 27 and
  27.035, both reported as 27.0; B, whose unrounded composite is the higher one, is
  ranked second, behind A, because A comes first in the input.
\<close>

theorem ranked_by_rounded_composite_counterexample:
  "map_sum id (map area_code \<circ> recommendations)
     (score_and_rank ''student''
        \<lparr> budget_max = None, max_commute_minutes = None, min_safety_score = None,
          min_school_rating = None, importance_weights = None \<rparr>
        [(''A'', [''scansan'' \<mapsto> [''affordability_score'' \<mapsto> 70]]),
         (''B'', [''scansan'' \<mapsto> [''affordability_score'' \<mapsto> 701 / 10]])] 10) = Inr [''A'', ''B''] \<and>
   map_sum id (map composite_score \<circ> recommendations)
     (score_and_rank ''student''
        \<lparr> budget_max = None, max_commute_minutes = None, min_safety_score = None,
          min_school_rating = None, importance_weights = None \<rparr>
        [(''A'', [''scansan'' \<mapsto> [''affordability_score'' \<mapsto> 70]]),
         (''B'', [''scansan'' \<mapsto> [''affordability_score'' \<mapsto> 701 / 10]])] 10) = Inr [27, 27] \<and>
   map_sum id (map rank \<circ> recommendations)
     (score_and_rank ''student''
        \<lparr> budget_max = None, max_commute_minutes = None, min_safety_score = None,
          min_school_rating = None, importance_weights = None \<rparr>
        [(''A'', [''scansan'' \<mapsto> [''affordability_score'' \<mapsto> 70]]),
         (''B'', [''scansan'' \<mapsto> [''affordability_score'' \<mapsto> 701 / 10]])] 10) = Inr [Some 1, Some 2] \<and>
   fst (calculate_composite_score
          (calculate_factor_scores [''scansan'' \<mapsto> [''affordability_score'' \<mapsto> 70]] ''student'')
          [(''affordability'', 35), (''commute'', 25), (''safety'', 15),
           (''amenities'', 20), (''investment_quality'', 5)]) = 27 \<and>
   fst (calculate_composite_score
          (calculate_factor_scores [''scansan'' \<mapsto> [''affordability_score'' \<mapsto> 701 / 10]]
             ''student'')
          [(''affordability'', 35), (''commute'', 25), (''safety'', 15),
           (''amenities'', 20), (''investment_quality'', 5)]) = 27035 / 1000 \<and>
   (27 :: rat) < 27035 / 1000"
  by (simp add: score_and_rank_def PERSONA_WEIGHTS_def calculate_adjusted_weights_def
     passes_constraints_def score_candidate_def calculate_factor_scores_def
     calculate_composite_score_def map_get_def Let_def py_round_def round_half_even_def
     floor_rat_numeral sort_reverse_def py_slice_to_def assign_ranks_def enumerate_eq_zip)

end
